theory Spec2Isabelle
  imports Main
begin

section \<open>GrocerySaver backend: data model\<close>

text \<open>
  The backend keeps two collections that matter here, lists and categories
  (\<^verbatim>\<open>DB_Models/list.js\<close>, \<^verbatim>\<open>DB_Models/category.js\<close>). An ObjectId is a natural
  number. A JavaScript string is its sequence of UTF-16 code units. A JavaScript
  Number is a value of a type \<open>'n\<close> that the model does not fix: its addition, its
  comparisons with zero, the number one and its printing come with the record of
  primitives \<open>'n js\<close>, as does the lower-casing of strings beyond ASCII.
\<close>

subsection \<open>Strings and numbers\<close>

type_synonym jsstring = "nat list"

text \<open>A string literal of the source, as code units.\<close>

definition str :: "string \<Rightarrow> jsstring" where
  "str s = map of_char s"

record 'n js =
  lower_unicode :: "jsstring \<Rightarrow> jsstring"
  num_add :: "'n \<Rightarrow> 'n \<Rightarrow> 'n"
  num_gt0 :: "'n \<Rightarrow> bool"
  num_le0 :: "'n \<Rightarrow> bool"
  num_one :: 'n
  num_truthy :: "'n \<Rightarrow> bool"
  num_toString :: "'n \<Rightarrow> jsstring"

text \<open>\<open>String.prototype.toLowerCase\<close>: on a string of ASCII code units the upper-case
  Latin letters are lowered one by one; on any other string the result is the
  primitive's.\<close>

definition lower_ascii :: "nat \<Rightarrow> nat" where
  "lower_ascii c = (if 65 \<le> c \<and> c \<le> 90 then c + 32 else c)"

definition toLowerCase :: "'n js \<Rightarrow> jsstring \<Rightarrow> jsstring" where
  "toLowerCase J s =
     (if list_all (\<lambda>c. c < 128) s then map lower_ascii s else lower_unicode J s)"

text \<open>\<open>String.prototype.trim\<close> strips ECMAScript's white space and line terminators:
  U+0009 to U+000D, U+0020, U+00A0, U+1680, U+2000 to U+200A, U+2028, U+2029, U+202F,
  U+205F, U+3000 and U+FEFF.\<close>

definition is_space :: "nat \<Rightarrow> bool" where
  "is_space c =
     (c \<in> {9, 10, 11, 12, 13, 32, 160, 5760, 8232, 8233, 8239, 8287, 12288, 65279}
      \<or> (8192 \<le> c \<and> c \<le> 8202))"

definition trim :: "jsstring \<Rightarrow> jsstring" where
  "trim s = rev (dropWhile is_space (rev (dropWhile is_space s)))"

subsection \<open>Array helpers\<close>

text \<open>\<open>Array.prototype.findIndex\<close>: the first index whose element satisfies the
  predicate; \<open>None\<close> stands for \<open>-1\<close>.\<close>

fun findIndex :: "('a \<Rightarrow> bool) \<Rightarrow> 'a list \<Rightarrow> nat option" where
  "findIndex p [] = None"
| "findIndex p (x # xs) = (if p x then Some 0 else map_option Suc (findIndex p xs))"

text \<open>\<open>Array.prototype.indexOf\<close>: the first index holding the value.\<close>

definition indexOf :: "'a list \<Rightarrow> 'a \<Rightarrow> nat option" where
  "indexOf xs x = findIndex (\<lambda>y. y = x) xs"

text \<open>\<open>Array.prototype.some\<close> with the two-argument callback \<open>(element, index)\<close>.\<close>

definition some_idx :: "('a \<Rightarrow> nat \<Rightarrow> bool) \<Rightarrow> 'a list \<Rightarrow> bool" where
  "some_idx p xs = list_ex (\<lambda>i. p (xs ! i) i) [0..<length xs]"

subsection \<open>Documents\<close>

record 'n item =
  item_id :: nat
  name :: jsstring
  quantity :: 'n
  unit :: jsstring
  isCompleted :: bool

record 'n list_doc =
  list_id :: nat
  list_name :: jsstring
  categoryId :: nat
  userId :: nat
  items :: "'n item list"

record category =
  cat_id :: nat
  cat_name :: jsstring
  cat_userId :: nat

record 'n db =
  lists :: "'n list_doc list"
  categories :: "category list"

datatype js_error =
    TypeError
  | InvalidItemFormat
  | DuplicateItemNames
  | ValidationError
  | DuplicateKey

subsection \<open>Saving a list (\<^verbatim>\<open>DB_Models/list.js\<close>)\<close>

text \<open>
  \<^verbatim>\<open>listSchema.pre('save', ...)\<close>: the item names are lower-cased (and nothing else),
  and the save is refused when some name occurs at an index other than its first.
\<close>

definition hasDuplicates :: "'n js \<Rightarrow> 'n item list \<Rightarrow> bool" where
  "hasDuplicates J its =
     (let itemNames = map (\<lambda>it. toLowerCase J (name it)) its
      in some_idx (\<lambda>n idx. indexOf itemNames n \<noteq> Some idx) itemNames)"

definition pre_save :: "'n js \<Rightarrow> 'n list_doc \<Rightarrow> js_error + unit" where
  "pre_save J l = (if hasDuplicates J (items l) then Inl DuplicateItemNames else Inr ())"

text \<open>
  The schema's \<^verbatim>\<open>required: true\<close> on the list name and on every item name: Mongoose's
  validation, run by \<open>save\<close> before the hook, refuses an empty string.
\<close>

definition validate_doc :: "'n list_doc \<Rightarrow> js_error + unit" where
  "validate_doc l =
     (if list_name l = [] \<or> list_ex (\<lambda>it. name it = []) (items l)
      then Inl ValidationError else Inr ())"

fun replace_first :: "('a \<Rightarrow> bool) \<Rightarrow> 'a \<Rightarrow> 'a list \<Rightarrow> 'a list" where
  "replace_first p y [] = []"
| "replace_first p y (x # xs) = (if p x then y # xs else x # replace_first p y xs)"

fun delete_first :: "('a \<Rightarrow> bool) \<Rightarrow> 'a list \<Rightarrow> 'a list" where
  "delete_first p [] = []"
| "delete_first p (x # xs) = (if p x then xs else x # delete_first p xs)"

text \<open>\<open>doc.save()\<close> on a document loaded from the store: validation, the hook, then
  the write of the document under its \<open>_id\<close>.\<close>

definition save :: "'n js \<Rightarrow> 'n list_doc \<Rightarrow> 'n db \<Rightarrow> js_error + 'n db" where
  "save J l d =
     (case validate_doc l of
        Inl e \<Rightarrow> Inl e
      | Inr _ \<Rightarrow>
          (case pre_save J l of
             Inl e \<Rightarrow> Inl e
           | Inr _ \<Rightarrow>
               Inr (d\<lparr>lists := replace_first (\<lambda>x. list_id x = list_id l) l (lists d)\<rparr>)))"

text \<open>\<open>List.findById\<close>, \<open>List.findOne\<close>, \<open>List.find\<close>, \<open>List.deleteMany\<close>,
  \<open>findByIdAndDelete\<close>.\<close>

definition findOne :: "('n list_doc \<Rightarrow> bool) \<Rightarrow> 'n db \<Rightarrow> 'n list_doc option" where
  "findOne p d = find p (lists d)"

definition findById :: "nat \<Rightarrow> 'n db \<Rightarrow> 'n list_doc option" where
  "findById i d = findOne (\<lambda>l. list_id l = i) d"

definition find_lists :: "('n list_doc \<Rightarrow> bool) \<Rightarrow> 'n db \<Rightarrow> 'n list_doc list" where
  "find_lists p d = filter p (lists d)"

definition deleteMany :: "('n list_doc \<Rightarrow> bool) \<Rightarrow> 'n db \<Rightarrow> 'n db" where
  "deleteMany p d = d\<lparr>lists := filter (\<lambda>l. \<not> p l) (lists d)\<rparr>"

definition list_findByIdAndDelete :: "nat \<Rightarrow> 'n db \<Rightarrow> 'n db" where
  "list_findByIdAndDelete i d = d\<lparr>lists := delete_first (\<lambda>l. list_id l = i) (lists d)\<rparr>"

definition category_findByIdAndDelete :: "nat \<Rightarrow> 'n db \<Rightarrow> 'n db" where
  "category_findByIdAndDelete i d =
     d\<lparr>categories := delete_first (\<lambda>c. cat_id c = i) (categories d)\<rparr>"

text \<open>A new ObjectId: one that no item of the store or of the document in memory has.\<close>

definition fresh_oid :: "'n db \<Rightarrow> 'n item list \<Rightarrow> nat" where
  "fresh_oid d its =
     Suc (fold max (concat (map (\<lambda>l. map item_id (items l)) (lists d)) @ map item_id its) 0)"

section \<open>Responses\<close>

record conflict =
  c_name :: jsstring
  existingUnit :: jsstring
  newUnit :: jsstring

datatype 'n body =
    Message string
  | Lists "'n list_doc list"
  | ListData string "'n list_doc"
  | UpdatedItem string "'n item"
  | Conflicts "conflict list"

datatype 'n response = Response (status: nat) (payload: "'n body")

section \<open>Item descriptors of a request body\<close>

text \<open>
  An element of the \<open>items\<close> array of a request is any JSON value. The handlers tell
  apart: a string; \<open>null\<close> (whose \<open>typeof\<close> is \<open>'object'\<close>, and whose properties cannot be
  read); any other object or array, with its \<open>name\<close>, \<open>quantity\<close> and \<open>unit\<close>
  properties; and a number or boolean. The \<open>name\<close> property is any value. The
  \<open>quantity\<close> property is absent, \<open>null\<close> or a number, and \<open>unit\<close>, when present, is a
  string.
\<close>

datatype 'n jsval = JsUndefined | JsNull | JsBool bool | JsNum 'n | JsStr jsstring | JsObject

fun truthy :: "'n js \<Rightarrow> 'n jsval \<Rightarrow> bool" where
  "truthy J JsUndefined = False"
| "truthy J JsNull = False"
| "truthy J (JsBool b) = b"
| "truthy J (JsNum n) = num_truthy J n"
| "truthy J (JsStr s) = (s \<noteq> [])"
| "truthy J JsObject = True"

datatype 'n jsquantity = QAbsent | QNull | QNum 'n

datatype 'n descriptor =
    DStr jsstring
  | DNull
  | DObj (d_name: "'n jsval") (d_quantity: "'n jsquantity") (d_unit: "jsstring option")
  | DPrim

record 'n formatted =
  f_name :: jsstring
  f_quantity :: 'n
  f_unit :: jsstring
  f_isCompleted :: bool

text \<open>\<^verbatim>\<open>newItem.quantity > 0 ? newItem.quantity : 1\<close>, \<^verbatim>\<open>newItem.unit || 'pcs'\<close> and
  \<^verbatim>\<open>newItem.quantity <= 0\<close>. An absent quantity is \<open>undefined\<close>, which compares false
  both ways; \<open>null\<close> compares as zero.\<close>

definition quantity_or_1 :: "'n js \<Rightarrow> 'n jsquantity \<Rightarrow> 'n" where
  "quantity_or_1 J q =
     (case q of QNum n \<Rightarrow> if num_gt0 J n then n else num_one J | _ \<Rightarrow> num_one J)"

definition unit_or_pcs :: "jsstring option \<Rightarrow> jsstring" where
  "unit_or_pcs u = (case u of Some s \<Rightarrow> if s \<noteq> [] then s else str ''pcs'' | None \<Rightarrow> str ''pcs'')"

definition quantity_le_0 :: "'n js \<Rightarrow> 'n jsquantity \<Rightarrow> bool" where
  "quantity_le_0 J q = (case q of QNum n \<Rightarrow> num_le0 J n | QNull \<Rightarrow> True | QAbsent \<Rightarrow> False)"

section \<open>The list handlers (\<^verbatim>\<open>server.js\<close>)\<close>

text \<open>
  Every handler below runs behind \<open>authenticateToken\<close>; \<open>uid\<close> is \<open>req.user.userId\<close>.
  A handler takes the store and returns the response with the store it leaves. An
  exception escaping the \<open>try\<close> block is caught and answered with 500.
\<close>

subsection \<open>Fetching the lists of a category\<close>

definition fetch_lists :: "nat \<Rightarrow> nat \<Rightarrow> 'n db \<Rightarrow> 'n response" where
  "fetch_lists uid cid d =
     Response 200 (Lists (find_lists (\<lambda>l. categoryId l = cid \<and> userId l = uid) d))"

subsection \<open>Deleting a category and its lists\<close>

definition delete_category :: "nat \<Rightarrow> nat \<Rightarrow> 'n db \<Rightarrow> 'n response \<times> 'n db" where
  "delete_category uid cid d =
     (let d1 = deleteMany (\<lambda>l. categoryId l = cid) d;
          d2 = category_findByIdAndDelete cid d1
      in (Response 200 (Message ''Category and its lists deleted successfully.''), d2))"

subsection \<open>Adding a list with items\<close>

record 'n new_item =
  n_name :: "'n jsval"
  n_quantity :: 'n
  n_unit :: jsstring
  n_isCompleted :: bool

text \<open>The callback of \<open>items.map\<close>; reading \<open>item.name\<close> of \<open>null\<close> throws a TypeError.\<close>

fun format_new :: "'n js \<Rightarrow> 'n descriptor \<Rightarrow> js_error + 'n new_item" where
  "format_new J (DStr s) =
     Inr \<lparr>n_name = JsStr s, n_quantity = num_one J, n_unit = str ''pcs'',
          n_isCompleted = False\<rparr>"
| "format_new J DNull = Inl TypeError"
| "format_new J (DObj n q u) =
     (if truthy J n
      then Inr \<lparr>n_name = n, n_quantity = quantity_or_1 J q, n_unit = unit_or_pcs u,
                n_isCompleted = quantity_le_0 J q\<rparr>
      else Inl InvalidItemFormat)"
| "format_new J DPrim = Inl InvalidItemFormat"

text \<open>\<open>map\<close> with a callback that may throw: the first exception ends it.\<close>

fun map_throw :: "('a \<Rightarrow> js_error + 'b) \<Rightarrow> 'a list \<Rightarrow> js_error + 'b list" where
  "map_throw f [] = Inr []"
| "map_throw f (x # xs) =
     (case f x of
        Inl e \<Rightarrow> Inl e
      | Inr y \<Rightarrow> (case map_throw f xs of Inl e \<Rightarrow> Inl e | Inr ys \<Rightarrow> Inr (y # ys)))"

text \<open>Mongoose's cast of an item name to the schema's \<open>String\<close>: a string stays, a
  boolean or a number is printed, a plain object or array does not cast.\<close>

fun castString :: "'n js \<Rightarrow> 'n jsval \<Rightarrow> jsstring option" where
  "castString J (JsStr s) = Some s"
| "castString J (JsBool b) = Some (if b then str ''true'' else str ''false'')"
| "castString J (JsNum n) = Some (num_toString J n)"
| "castString J JsObject = None"
| "castString J JsNull = None"
| "castString J JsUndefined = None"

fun cast_items :: "'n js \<Rightarrow> nat \<Rightarrow> 'n new_item list \<Rightarrow> js_error + 'n item list" where
  "cast_items J i [] = Inr []"
| "cast_items J i (x # xs) =
     (case castString J (n_name x) of
        None \<Rightarrow> Inl ValidationError
      | Some s \<Rightarrow>
          (case cast_items J (Suc i) xs of
             Inl e \<Rightarrow> Inl e
           | Inr ys \<Rightarrow>
               Inr (\<lparr>item_id = i, name = s, quantity = n_quantity x, unit = n_unit x,
                     isCompleted = n_isCompleted x\<rparr> # ys)))"

text \<open>\<open>save\<close> of a new document: validation, the hook, and the unique index on
  \<open>(name, userId)\<close>, whose violation is error code 11000.\<close>

definition insert_list :: "'n js \<Rightarrow> 'n list_doc \<Rightarrow> 'n db \<Rightarrow> js_error + 'n db" where
  "insert_list J l d =
     (case validate_doc l of
        Inl e \<Rightarrow> Inl e
      | Inr _ \<Rightarrow>
          (case pre_save J l of
             Inl e \<Rightarrow> Inl e
           | Inr _ \<Rightarrow>
               if list_ex (\<lambda>x. list_name x = list_name l \<and> userId x = userId l) (lists d)
               then Inl DuplicateKey
               else Inr (d\<lparr>lists := lists d @ [l]\<rparr>)))"

definition fresh_list_id :: "'n db \<Rightarrow> nat" where
  "fresh_list_id d = Suc (fold max (map list_id (lists d)) 0)"

definition add_list_error :: "js_error \<Rightarrow> 'n response" where
  "add_list_error e =
     (if e = DuplicateKey
      then Response 409
             (Message ''A list with this name already exists in the selected category.'')
      else if e = InvalidItemFormat
      then Response 400 (Message ''One or more items have invalid format.'')
      else Response 500 (Message ''Error adding list''))"

definition add_list ::
  "'n js \<Rightarrow> nat \<Rightarrow> nat \<Rightarrow> jsstring option \<Rightarrow> 'n descriptor list option \<Rightarrow> 'n db
     \<Rightarrow> 'n response \<times> 'n db" where
  "add_list J uid cid nm body_items d =
     (case (nm, body_items) of
        (Some n, Some (x # xs)) \<Rightarrow>
          if n = [] then (Response 400 (Message ''List name and items are required''), d)
          else
            (case map_throw (format_new J) (x # xs) of
               Inl e \<Rightarrow> (add_list_error e, d)
             | Inr formattedItems \<Rightarrow>
                 (case cast_items J (fresh_oid d []) formattedItems of
                    Inl e \<Rightarrow> (add_list_error e, d)
                  | Inr its \<Rightarrow>
                      (let newList = \<lparr>list_id = fresh_list_id d, list_name = n,
                                      categoryId = cid, userId = uid, items = its\<rparr>
                       in case insert_list J newList d of
                            Inl e \<Rightarrow> (add_list_error e, d)
                          | Inr d' \<Rightarrow>
                              (Response 201 (ListData ''List added successfully'' newList), d'))))
      | _ \<Rightarrow> (Response 400 (Message ''List name and items are required''), d))"

subsection \<open>Deleting a list, deleting an item\<close>

definition delete_list :: "nat \<Rightarrow> nat \<Rightarrow> 'n db \<Rightarrow> 'n response \<times> 'n db" where
  "delete_list uid listId d =
     (case findById listId d of
        None \<Rightarrow> (Response 404 (Message ''List not found''), d)
      | Some l \<Rightarrow>
          (Response 200 (Message ''List deleted successfully''),
           list_findByIdAndDelete listId d))"

text \<open>\<open>findOneAndUpdate\<close> with \<open>$pull\<close>: the filter names the list and its owner; no
  save hook runs.\<close>

definition delete_item :: "nat \<Rightarrow> nat \<Rightarrow> nat \<Rightarrow> 'n db \<Rightarrow> 'n response \<times> 'n db" where
  "delete_item uid listId itemId d =
     (case findOne (\<lambda>l. list_id l = listId \<and> userId l = uid) d of
        None \<Rightarrow> (Response 404 (Message ''List not found or item not found''), d)
      | Some l \<Rightarrow>
          (let updatedList = l\<lparr>items := filter (\<lambda>it. item_id it \<noteq> itemId) (items l)\<rparr>
           in (Response 200 (ListData ''Item deleted successfully'' updatedList),
               d\<lparr>lists := replace_first (\<lambda>l. list_id l = listId \<and> userId l = uid)
                              updatedList (lists d)\<rparr>)))"

subsection \<open>Toggling an item\<close>

definition toggle_item :: "'n js \<Rightarrow> nat \<Rightarrow> nat \<Rightarrow> 'n db \<Rightarrow> 'n response \<times> 'n db" where
  "toggle_item J uid itemId d =
     (case findOne (\<lambda>l. list_ex (\<lambda>it. item_id it = itemId) (items l)) d of
        None \<Rightarrow> (Response 404 (Message ''Item not found''), d)
      | Some l \<Rightarrow>
          (case findIndex (\<lambda>it. item_id it = itemId) (items l) of
             None \<Rightarrow> (Response 500 (Message ''Error toggling item''), d)
           | Some i \<Rightarrow>
               (let it = (items l ! i)\<lparr>isCompleted := \<not> isCompleted (items l ! i)\<rparr>;
                    l' = l\<lparr>items := (items l)[i := it]\<rparr>
                in case save J l' d of
                     Inl e \<Rightarrow> (Response 500 (Message ''Error toggling item''), d)
                   | Inr d' \<Rightarrow> (Response 200 (UpdatedItem ''Item toggled successfully'' it), d'))))"

subsection \<open>Merging items into a list\<close>

text \<open>The head of the loop body: a string or an object with a truthy \<open>name\<close> is
  formatted, anything else takes the \<open>continue\<close> branch (\<open>None\<close>). \<open>trim\<close> exists only
  on strings, and no property of \<open>null\<close> can be read: both throw a TypeError.\<close>

fun format_merge :: "'n js \<Rightarrow> 'n descriptor \<Rightarrow> js_error + 'n formatted option" where
  "format_merge J (DStr s) =
     Inr (Some \<lparr>f_name = trim s, f_quantity = num_one J, f_unit = str ''pcs'',
                f_isCompleted = False\<rparr>)"
| "format_merge J DNull = Inl TypeError"
| "format_merge J (DObj n q u) =
     (if truthy J n
      then (case n of
              JsStr s \<Rightarrow>
                Inr (Some \<lparr>f_name = trim s, f_quantity = quantity_or_1 J q,
                           f_unit = unit_or_pcs u, f_isCompleted = quantity_le_0 J q\<rparr>)
            | _ \<Rightarrow> Inl TypeError)
      else Inr None)"
| "format_merge J DPrim = Inr None"

text \<open>\<open>existingItems.push(formatted)\<close>: the array casts the object to a subdocument
  with an \<open>_id\<close> of its own.\<close>

definition push_item :: "nat \<Rightarrow> 'n formatted \<Rightarrow> 'n item list \<Rightarrow> 'n item list" where
  "push_item oid fm its =
     its @ [\<lparr>item_id = oid, name = f_name fm, quantity = f_quantity fm, unit = f_unit fm,
             isCompleted = f_isCompleted fm\<rparr>]"

text \<open>The two \<open>findIndex\<close> callbacks; \<open>nameLower\<close> is \<open>formatted.name.toLowerCase()\<close>.\<close>

definition exactMatch :: "'n js \<Rightarrow> 'n formatted \<Rightarrow> 'n item \<Rightarrow> bool" where
  "exactMatch J fm it =
     (let nameLower = toLowerCase J (f_name fm)
      in toLowerCase J (trim (name it)) = nameLower \<and> unit it = f_unit fm)"

definition nameConflict :: "'n js \<Rightarrow> 'n formatted \<Rightarrow> 'n item \<Rightarrow> bool" where
  "nameConflict J fm it =
     (let nameLower = toLowerCase J (f_name fm)
      in toLowerCase J (trim (name it)) = nameLower \<and> unit it \<noteq> f_unit fm)"

text \<open>The rest of the loop body, on the items in memory and the conflicts so far;
  \<open>+=\<close> is the addition of Numbers.\<close>

definition reconcile_one ::
  "'n js \<Rightarrow> 'n db \<Rightarrow> 'n formatted \<Rightarrow> 'n item list \<Rightarrow> conflict list
     \<Rightarrow> 'n item list \<times> conflict list" where
  "reconcile_one J d fm existingItems unitConflicts =
     (let exactMatchIndex = findIndex (exactMatch J fm) existingItems;
          nameConflictIndex = findIndex (nameConflict J fm) existingItems
      in case exactMatchIndex of
           Some i \<Rightarrow>
             (existingItems[i := (existingItems ! i)
                \<lparr>quantity := num_add J (quantity (existingItems ! i)) (f_quantity fm)\<rparr>],
              unitConflicts)
         | None \<Rightarrow>
             (case nameConflictIndex of
                Some j \<Rightarrow>
                  (existingItems,
                   unitConflicts @
                     [\<lparr>c_name = f_name fm, existingUnit = unit (existingItems ! j),
                       newUnit = f_unit fm\<rparr>])
              | None \<Rightarrow>
                  (push_item (fresh_oid d existingItems) fm existingItems, unitConflicts)))"

fun reconcile ::
  "'n js \<Rightarrow> 'n db \<Rightarrow> 'n descriptor list \<Rightarrow> 'n item list \<Rightarrow> conflict list
     \<Rightarrow> js_error + 'n item list \<times> conflict list" where
  "reconcile J d [] existingItems unitConflicts = Inr (existingItems, unitConflicts)"
| "reconcile J d (newItem # rest) existingItems unitConflicts =
     (case format_merge J newItem of
        Inl e \<Rightarrow> Inl e
      | Inr None \<Rightarrow> reconcile J d rest existingItems unitConflicts
      | Inr (Some fm) \<Rightarrow>
          (case reconcile_one J d fm existingItems unitConflicts of
             (its, cs) \<Rightarrow> reconcile J d rest its cs))"

definition update_list ::
  "'n js \<Rightarrow> nat \<Rightarrow> nat \<Rightarrow> 'n descriptor list option \<Rightarrow> 'n db \<Rightarrow> 'n response \<times> 'n db" where
  "update_list J uid listID body_items d =
     (case body_items of
        None \<Rightarrow> (Response 400 (Message ''List ID and items are required''), d)
      | Some [] \<Rightarrow> (Response 400 (Message ''List ID and items are required''), d)
      | Some (x # xs) \<Rightarrow>
          (case findById listID d of
             None \<Rightarrow> (Response 404 (Message ''List not found''), d)
           | Some l \<Rightarrow>
               (case reconcile J d (x # xs) (items l) [] of
                  Inl e \<Rightarrow> (Response 500 (Message ''Error updating list''), d)
                | Inr (existingItems, unitConflicts) \<Rightarrow>
                    if unitConflicts \<noteq> [] then (Response 400 (Conflicts unitConflicts), d)
                    else
                      (case save J (l\<lparr>items := existingItems\<rparr>) d of
                         Inl e \<Rightarrow> (Response 500 (Message ''Error updating list''), d)
                       | Inr d' \<Rightarrow>
                           (Response 200
                              (ListData ''List updated successfully''
                                 (l\<lparr>items := existingItems\<rparr>)), d')))))"

subsection \<open>Updating one item\<close>

text \<open>The \<open>updatedItem\<close> of the request body; a missing property is \<open>None\<close>, as is a
  \<open>null\<close> quantity.\<close>

record 'n item_update =
  u_name :: "jsstring option"
  u_quantity :: "'n option"
  u_unit :: "jsstring option"

definition falsy_str :: "'a list option \<Rightarrow> bool" where
  "falsy_str s = (s = None \<or> s = Some [])"

definition normalized :: "'n js \<Rightarrow> jsstring \<Rightarrow> jsstring" where
  "normalized J s = toLowerCase J (trim s)"

definition update_item ::
  "'n js \<Rightarrow> nat \<Rightarrow> nat \<Rightarrow> nat \<Rightarrow> 'n item_update option \<Rightarrow> 'n db \<Rightarrow> 'n response \<times> 'n db" where
  "update_item J uid listID itemID body_item d =
     (case body_item of
        None \<Rightarrow> (Response 400 (Message ''Incomplete item data''), d)
      | Some updatedItem \<Rightarrow>
          if falsy_str (u_name updatedItem) \<or> u_quantity updatedItem = None
             \<or> falsy_str (u_unit updatedItem)
          then (Response 400 (Message ''Incomplete item data''), d)
          else
            (case findById listID d of
               None \<Rightarrow> (Response 404 (Message ''List not found''), d)
             | Some l \<Rightarrow>
                 (let currentItem = find (\<lambda>it. item_id it = itemID) (items l);
                      normalizedNewName = normalized J (the (u_name updatedItem));
                      normalizedCurrentName =
                        map_option (\<lambda>it. normalized J (name it)) currentItem;
                      hasDuplicate =
                        list_ex (\<lambda>it. item_id it \<noteq> itemID
                                   \<and> normalized J (name it) = normalizedNewName) (items l)
                  in if Some normalizedNewName \<noteq> normalizedCurrentName \<and> hasDuplicate
                     then (Response 400
                             (Message ''Item name already exists in the list (case-insensitive)''),
                           d)
                     else
                       (case findIndex (\<lambda>it. item_id it = itemID) (items l) of
                          None \<Rightarrow> (Response 404 (Message ''Item not found in the list''), d)
                        | Some i \<Rightarrow>
                            (let l' = l\<lparr>items := (items l)[i := (items l ! i)
                                         \<lparr>name := the (u_name updatedItem),
                                          quantity := the (u_quantity updatedItem),
                                          unit := the (u_unit updatedItem)\<rparr>]\<rparr>
                             in case save J l' d of
                                  Inl e \<Rightarrow> (Response 500 (Message ''Error updating item''), d)
                                | Inr d' \<Rightarrow>
                                    (Response 200 (ListData ''Item updated successfully'' l'),
                                     d'))))))"

section \<open>Tokens (\<^verbatim>\<open>authenticator.js\<close>)\<close>

text \<open>
  \<open>jsonwebtoken\<close> is taken symbolically: a token is either a payload together with the
  secret it was signed with, or a string that is no token at all. A token verifies
  against a secret when it was signed with that secret and the clock has not reached
  its expiry. A tampered token is one not signed with the server's secret. The clock
  \<open>now\<close> counts seconds. Both secrets are set in the environment.
\<close>

record jwt_payload =
  p_userId :: nat
  p_email :: "string option"
  p_exp :: nat

datatype token = Signed string jwt_payload | Malformed

datatype jwt_error = JsonWebTokenError | TokenExpiredError

definition jwt_sign :: "nat \<Rightarrow> string option \<Rightarrow> string \<Rightarrow> nat \<Rightarrow> nat \<Rightarrow> token" where
  "jwt_sign uid em secret now expiresIn =
     Signed secret \<lparr>p_userId = uid, p_email = em, p_exp = now + expiresIn\<rparr>"

fun jwt_verify :: "token \<Rightarrow> string \<Rightarrow> nat \<Rightarrow> jwt_error + jwt_payload" where
  "jwt_verify Malformed secret now = Inl JsonWebTokenError"
| "jwt_verify (Signed k p) secret now =
     (if k \<noteq> secret then Inl JsonWebTokenError
      else if p_exp p \<le> now then Inl TokenExpiredError
      else Inr p)"

record config =
  ACCESS_TOKEN_SECRET :: string
  REFRESH_TOKEN_SECRET :: string

record user =
  user_id :: nat
  username :: string
  email :: string
  password :: string

datatype auth_body =
    AuthMessage string
  | AccessToken token
  | Login token nat string string

datatype cookie_op = SetRefreshToken token | ClearRefreshToken

record auth_response =
  a_status :: nat
  a_body :: auth_body
  a_cookie :: "cookie_op option"

text \<open>\<open>GET /refresh-token\<close>; \<open>cookie\<close> is \<open>req.cookies.refreshToken\<close>.\<close>

definition refresh_token :: "config \<Rightarrow> nat \<Rightarrow> token option \<Rightarrow> auth_response" where
  "refresh_token cfg now cookie =
     (case cookie of
        None \<Rightarrow>
          \<lparr>a_status = 401, a_body = AuthMessage ''Refresh token missing'', a_cookie = None\<rparr>
      | Some refreshToken \<Rightarrow>
          (case jwt_verify refreshToken (REFRESH_TOKEN_SECRET cfg) now of
             Inl e \<Rightarrow>
               \<lparr>a_status = 403, a_body = AuthMessage ''Invalid or expired refresh token'',
                 a_cookie = None\<rparr>
           | Inr decoded \<Rightarrow>
               (let newAccessToken =
                      jwt_sign (p_userId decoded) None (ACCESS_TOKEN_SECRET cfg) now (15 * 60)
                in \<lparr>a_status = 200, a_body = AccessToken newAccessToken, a_cookie = None\<rparr>)))"

text \<open>\<open>POST /signin\<close>; \<open>compare\<close> is \<open>bcrypt.compare\<close>.\<close>

definition signin ::
  "config \<Rightarrow> (string \<Rightarrow> string \<Rightarrow> bool) \<Rightarrow> nat \<Rightarrow> user list
     \<Rightarrow> string option \<Rightarrow> string option \<Rightarrow> auth_response" where
  "signin cfg compare now users em pw =
     (if falsy_str em \<or> falsy_str pw
      then \<lparr>a_status = 400, a_body = AuthMessage ''Email and password are required'',
            a_cookie = None\<rparr>
      else
        (case find (\<lambda>u. email u = the em) users of
           None \<Rightarrow>
             \<lparr>a_status = 401, a_body = AuthMessage ''No account exists with this email'',
               a_cookie = None\<rparr>
         | Some u \<Rightarrow>
             if \<not> compare (the pw) (password u)
             then \<lparr>a_status = 401, a_body = AuthMessage ''Incorrect password'', a_cookie = None\<rparr>
             else
               (let accessToken =
                      jwt_sign (user_id u) (Some (email u)) (ACCESS_TOKEN_SECRET cfg) now 60;
                    refreshToken =
                      jwt_sign (user_id u) None (REFRESH_TOKEN_SECRET cfg) now (7 * 24 * 60 * 60)
                in \<lparr>a_status = 200,
                    a_body = Login accessToken (user_id u) (username u) (email u),
                    a_cookie = Some (SetRefreshToken refreshToken)\<rparr>)))"

text \<open>The guard of the protected routes; \<open>bearer\<close> is the token of the
  \<open>Authorization\<close> header. On success it leaves \<open>req.user\<close>: the user id and the
  email of the payload.\<close>

definition authenticateToken ::
  "config \<Rightarrow> nat \<Rightarrow> token option \<Rightarrow> auth_response + nat \<times> string option" where
  "authenticateToken cfg now bearer =
     (case bearer of
        None \<Rightarrow>
          Inl \<lparr>a_status = 401, a_body = AuthMessage ''Authentication token missing'',
                a_cookie = None\<rparr>
      | Some tok \<Rightarrow>
          (case jwt_verify tok (ACCESS_TOKEN_SECRET cfg) now of
             Inl e \<Rightarrow>
               Inl \<lparr>a_status = 401, a_body = AuthMessage ''Invalid or expired access token'',
                     a_cookie = None\<rparr>
           | Inr decoded \<Rightarrow> Inr (p_userId decoded, p_email decoded)))"

section \<open>Example data\<close>

text \<open>The primitives on the values of the examples: integers of small size, on which
  JavaScript's Numbers are exact, printed in decimal; strings beyond ASCII are left
  as they are.\<close>

fun digits :: "nat \<Rightarrow> jsstring" where
  "digits n = (if n < 10 then [48 + n] else digits (n div 10) @ [48 + n mod 10])"

definition int_toString :: "int \<Rightarrow> jsstring" where
  "int_toString n = (if n < 0 then 45 # digits (nat (- n)) else digits (nat n))"

definition ex_js :: "int js" where
  "ex_js =
     \<lparr>lower_unicode = (\<lambda>s. s), num_add = (\<lambda>a b. a + b), num_gt0 = (\<lambda>n. 0 < n),
      num_le0 = (\<lambda>n. n \<le> 0), num_one = 1, num_truthy = (\<lambda>n. n \<noteq> 0),
      num_toString = int_toString\<rparr>"

definition ex_cfg :: config where
  "ex_cfg =
     \<lparr>ACCESS_TOKEN_SECRET = ''access-secret'', REFRESH_TOKEN_SECRET = ''refresh-secret''\<rparr>"

definition ex_users :: "user list" where
  "ex_users =
     [\<lparr>user_id = 7, username = ''ann'', email = ''ann@example.com'', password = ''hash''\<rparr>]"

definition ex_compare :: "string \<Rightarrow> string \<Rightarrow> bool" where
  "ex_compare pw h = (pw = ''secret'' \<and> h = ''hash'')"

text \<open>A store in which user 2 owns the category 5 and its list 10.\<close>

definition ex_store :: "int db" where
  "ex_store =
     \<lparr>lists =
        [\<lparr>list_id = 10, list_name = str ''Weekly'', categoryId = 5, userId = 2,
          items =
            [\<lparr>item_id = 1, name = str ''Milk'', quantity = 2, unit = str ''L'',
               isCompleted = False\<rparr>,
             \<lparr>item_id = 2, name = str ''Eggs'', quantity = 6, unit = str ''pcs'',
               isCompleted = False\<rparr>]\<rparr>],
      categories = [\<lparr>cat_id = 5, cat_name = str ''Food'', cat_userId = 2\<rparr>]\<rparr>"

text \<open>A list that holds the items \<open>Milk\<close> and \<open>milk\<close>.\<close>

definition milk_store :: "int db" where
  "milk_store =
     \<lparr>lists =
        [\<lparr>list_id = 10, list_name = str ''Weekly'', categoryId = 5, userId = 2,
          items =
            [\<lparr>item_id = 1, name = str ''Milk'', quantity = 2, unit = str ''L'',
               isCompleted = False\<rparr>,
             \<lparr>item_id = 2, name = str ''milk'', quantity = 1, unit = str ''pcs'',
               isCompleted = False\<rparr>]\<rparr>],
      categories = [\<lparr>cat_id = 5, cat_name = str ''Food'', cat_userId = 2\<rparr>]\<rparr>"

text \<open>A store whose only list has no items.\<close>

definition rice_store :: "int db" where
  "rice_store =
     \<lparr>lists =
        [\<lparr>list_id = 11, list_name = str ''Pantry'', categoryId = 5, userId = 2, items = []\<rparr>],
      categories = [\<lparr>cat_id = 5, cat_name = str ''Food'', cat_userId = 2\<rparr>]\<rparr>"

definition empty_store :: "int db" where
  "empty_store = \<lparr>lists = [], categories = []\<rparr>"

section \<open>Properties of the helpers\<close>

lemma findIndex_Some_iff:
  "findIndex p xs = Some i \<longleftrightarrow> i < length xs \<and> p (xs ! i) \<and> (\<forall>j<i. \<not> p (xs ! j))"
proof (induction xs arbitrary: i)
  case Nil
  then show ?case by simp
next
  case (Cons x xs)
  show ?case
  proof (cases "p x")
    case True
    then show ?thesis by (cases i) auto
  next
    case False
    show ?thesis
    proof (cases i)
      case 0
      with False show ?thesis by simp
    next
      case (Suc k)
      have "(\<forall>j<Suc k. \<not> p ((x # xs) ! j)) \<longleftrightarrow> (\<forall>j<k. \<not> p (xs ! j))"
        using False by (auto simp: less_Suc_eq_0_disj)
      with False Suc Cons.IH [of k] show ?thesis by auto
    qed
  qed
qed


lemma indexOf_self_iff_distinct:
  "(\<forall>i<length xs. indexOf xs (xs ! i) = Some i) \<longleftrightarrow> distinct xs"
proof
  assume h: "\<forall>i<length xs. indexOf xs (xs ! i) = Some i"
  show "distinct xs"
    unfolding distinct_conv_nth
  proof (intro allI impI)
    fix i j
    assume ij: "i < length xs" "j < length xs" "i \<noteq> j"
    from h ij have a: "\<forall>k<i. xs ! k \<noteq> xs ! i" and b: "\<forall>k<j. xs ! k \<noteq> xs ! j"
      by (simp_all add: indexOf_def findIndex_Some_iff)
    from ij(3) consider "i < j" | "j < i" by linarith
    then show "xs ! i \<noteq> xs ! j"
    proof cases
      case 1 with b show ?thesis by blast
    next
      case 2 with a show ?thesis by metis
    qed
  qed
next
  assume "distinct xs"
  then show "\<forall>i<length xs. indexOf xs (xs ! i) = Some i"
    by (auto simp: indexOf_def findIndex_Some_iff nth_eq_iff_index_eq)
qed

lemma some_idx_iff: "some_idx p xs \<longleftrightarrow> (\<exists>i<length xs. p (xs ! i) i)"
  by (auto simp: some_idx_def list_ex_iff)

lemma hasDuplicates_iff:
  "hasDuplicates J its \<longleftrightarrow> \<not> distinct (map (\<lambda>it. toLowerCase J (name it)) its)"
proof -
  let ?ns = "map (\<lambda>it. toLowerCase J (name it)) its"
  have "hasDuplicates J its \<longleftrightarrow> (\<exists>i<length ?ns. indexOf ?ns (?ns ! i) \<noteq> Some i)"
    unfolding hasDuplicates_def Let_def some_idx_iff ..
  also have "\<dots> \<longleftrightarrow> \<not> (\<forall>i<length ?ns. indexOf ?ns (?ns ! i) = Some i)"
    by blast
  also have "\<dots> \<longleftrightarrow> \<not> distinct ?ns"
    unfolding indexOf_self_iff_distinct ..
  finally show ?thesis .
qed

lemma pre_save_iff:
  "pre_save J l = Inr () \<longleftrightarrow> distinct (map (\<lambda>it. toLowerCase J (name it)) (items l))"
  by (simp add: pre_save_def hasDuplicates_iff)



text \<open>The definitions that evaluate a handler on concrete data.\<close>

lemmas eval_defs =
  str_def toLowerCase_def lower_ascii_def is_space_def trim_def normalized_def
  hasDuplicates_def some_idx_def indexOf_def pre_save_def validate_doc_def save_def
  insert_list_def fresh_oid_def fresh_list_id_def add_list_def add_list_error_def
  findOne_def findById_def find_lists_def deleteMany_def list_findByIdAndDelete_def
  category_findByIdAndDelete_def fetch_lists_def delete_category_def delete_list_def
  delete_item_def toggle_item_def push_item_def exactMatch_def nameConflict_def
  reconcile_one_def update_list_def update_item_def falsy_str_def quantity_or_1_def
  unit_or_pcs_def quantity_le_0_def ex_js_def ex_store_def milk_store_def rice_store_def
  empty_store_def Let_def upt_rec

lemma trim_strips_unicode_space: "trim ([160] @ str ''Milk'' @ [8232, 12288]) = str ''Milk''"
  by (simp add: eval_defs)

section \<open>The save guard\<close>

text \<open>
  Claim C3: every list save is rejected whenever two items have equal names after
  trimming and lower-casing, so that no persisted list holds two such items.

  The hook lower-cases the names and does not trim them (\<open>pre_save_iff\<close>), while the
  handlers of \<^verbatim>\<open>server.js\<close> compare names trimmed and lower-cased. The names
  \<open>milk\<close> and \<open>milk\<close> followed by a space are equal once normalised, the hook lets
  them through, and creating a list with both persists them.
\<close>

theorem save_guard_does_not_trim:
  "normalized ex_js (str ''milk'') = normalized ex_js (str ''milk '')
   \<and> pre_save ex_js \<lparr>list_id = 1, list_name = str ''L'', categoryId = 5, userId = 2,
        items =
          [\<lparr>item_id = 1, name = str ''milk'', quantity = 1, unit = str ''pcs'', isCompleted = False\<rparr>,
           \<lparr>item_id = 2, name = str ''milk '', quantity = 1, unit = str ''pcs'',
             isCompleted = False\<rparr>]\<rparr>
       = Inr ()
   \<and> add_list ex_js 2 5 (Some (str ''L'')) (Some [DStr (str ''milk''), DStr (str ''milk '')]) empty_store
       = (Response 201 (ListData ''List added successfully''
            \<lparr>list_id = 1, list_name = str ''L'', categoryId = 5, userId = 2,
              items =
                [\<lparr>item_id = 1, name = str ''milk'', quantity = 1, unit = str ''pcs'',
                   isCompleted = False\<rparr>,
                 \<lparr>item_id = 2, name = str ''milk '', quantity = 1, unit = str ''pcs'',
                   isCompleted = False\<rparr>]\<rparr>),
          \<lparr>lists =
             [\<lparr>list_id = 1, list_name = str ''L'', categoryId = 5, userId = 2,
               items =
                 [\<lparr>item_id = 1, name = str ''milk'', quantity = 1, unit = str ''pcs'',
                    isCompleted = False\<rparr>,
                  \<lparr>item_id = 2, name = str ''milk '', quantity = 1, unit = str ''pcs'',
                    isCompleted = False\<rparr>]\<rparr>],
            categories = []\<rparr>)"
  by (simp add: eval_defs)

section \<open>Category deletion\<close>

text \<open>
  Claim C9: after a category deletion that completes successfully, no list whose
  \<open>categoryId\<close> is the deleted category's id remains in the store, and fetching the
  lists of that category returns an empty array.
\<close>

theorem delete_category_cascade:
  "delete_category uid cid d = (r, d') \<Longrightarrow> status r = 200 \<Longrightarrow>
     find_lists (\<lambda>l. categoryId l = cid) d' = []
     \<and> fetch_lists uid cid d' = Response 200 (Lists [])"
  by (auto simp: delete_category_def deleteMany_def category_findByIdAndDelete_def
      find_lists_def fetch_lists_def Let_def filter_empty_conv)

theorem delete_category_cascade_witness:
  "delete_category 2 5 ex_store
     = (Response 200 (Message ''Category and its lists deleted successfully.''), empty_store)
   \<and> find_lists (\<lambda>l. categoryId l = 5) empty_store = []
   \<and> fetch_lists 2 5 empty_store = Response 200 (Lists [])"
proof -
  have run: "delete_category 2 5 ex_store
     = (Response 200 (Message ''Category and its lists deleted successfully.''), empty_store)"
    by (simp add: delete_category_def deleteMany_def category_findByIdAndDelete_def
        ex_store_def empty_store_def)
  from delete_category_cascade [OF run] run show ?thesis by simp
qed

section \<open>The token lifecycle\<close>

text \<open>
  Claim C7: a refresh request without the cookie is answered 401; with a token that is
  tampered with or expired, 403; with a valid token, 200 and a fresh access token whose
  payload carries the user id of the refresh token, and no cookie is set (the refresh
  token is not rotated).
\<close>

theorem refresh_token_flow:
  "a_status (refresh_token cfg now None) = 401
   \<and> (tok = Malformed
        \<or> (\<exists>k p. tok = Signed k p \<and> (k \<noteq> REFRESH_TOKEN_SECRET cfg \<or> p_exp p \<le> now))
        \<longrightarrow> a_status (refresh_token cfg now (Some tok)) = 403)
   \<and> (now < p_exp p \<longrightarrow>
        (\<exists>t. refresh_token cfg now (Some (Signed (REFRESH_TOKEN_SECRET cfg) p))
               = \<lparr>a_status = 200, a_body = AccessToken t, a_cookie = None\<rparr>
           \<and> (\<exists>p'. jwt_verify t (ACCESS_TOKEN_SECRET cfg) now = Inr p'
                  \<and> p_userId p' = p_userId p)))"
  by (auto simp: refresh_token_def jwt_sign_def)

theorem refresh_token_flow_witness:
  "a_status (refresh_token ex_cfg 100 None) = 401
   \<and> a_status (refresh_token ex_cfg 100
        (Some (Signed ''forged'' \<lparr>p_userId = 7, p_email = None, p_exp = 500\<rparr>))) = 403
   \<and> (\<exists>t. refresh_token ex_cfg 100
             (Some (Signed (REFRESH_TOKEN_SECRET ex_cfg)
                \<lparr>p_userId = 7, p_email = None, p_exp = 500\<rparr>))
           = \<lparr>a_status = 200, a_body = AccessToken t, a_cookie = None\<rparr>
         \<and> (\<exists>p'. jwt_verify t (ACCESS_TOKEN_SECRET ex_cfg) 100 = Inr p' \<and> p_userId p' = 7))"
  using refresh_token_flow [of ex_cfg 100
      "Signed ''forged'' \<lparr>p_userId = 7, p_email = None, p_exp = 500\<rparr>"
      "\<lparr>p_userId = 7, p_email = None, p_exp = 500\<rparr>"]
  by (simp add: ex_cfg_def)

text \<open>
  Claim C8: every access token the system issues, at signin and at refresh, carries
  the user id and the user's email in its payload.

  Signin signs \<open>{userId, email}\<close>; the refresh endpoint signs \<open>{userId}\<close> only. After a
  signin of user 7 the guard of the protected routes reads the email from the token;
  from the token minted by the refresh that follows it reads none.
\<close>

theorem refreshed_token_has_no_email:
  "\<exists>t rt. signin ex_cfg ex_compare 100 ex_users (Some ''ann@example.com'') (Some ''secret'')
            = \<lparr>a_status = 200, a_body = Login t 7 ''ann'' ''ann@example.com'',
               a_cookie = Some (SetRefreshToken rt)\<rparr>
        \<and> authenticateToken ex_cfg 120 (Some t) = Inr (7, Some ''ann@example.com'')
        \<and> (\<exists>t'. refresh_token ex_cfg 200 (Some rt)
                   = \<lparr>a_status = 200, a_body = AccessToken t', a_cookie = None\<rparr>
               \<and> authenticateToken ex_cfg 220 (Some t') = Inr (7, None))"
  by (simp add: signin_def refresh_token_def authenticateToken_def jwt_sign_def ex_cfg_def
      ex_users_def ex_compare_def falsy_str_def)

section \<open>Data isolation between users\<close>

text \<open>
  Claim C1: every mutating endpoint (toggle item, merge items into a list, delete
  category, delete list, update one item) locates its target with the authenticated
  user's id in the filter, so that a request of user A against a list or category of
  user B changes nothing and fails as if the entity did not exist.

  Only the deletion of an item filters by \<open>userId\<close>. In \<open>ex_store\<close> everything belongs
  to user 2; the requests below are user 1's. The toggle, the merge, the two deletions
  and the item update all succeed on user 2's data; the deletion of an item answers
  404 and leaves the store alone.
\<close>

theorem cross_user_access:
  "toggle_item ex_js 1 1 ex_store
     = (Response 200 (UpdatedItem ''Item toggled successfully''
          \<lparr>item_id = 1, name = str ''Milk'', quantity = 2, unit = str ''L'', isCompleted = True\<rparr>),
        ex_store\<lparr>lists :=
          [\<lparr>list_id = 10, list_name = str ''Weekly'', categoryId = 5, userId = 2,
            items =
              [\<lparr>item_id = 1, name = str ''Milk'', quantity = 2, unit = str ''L'', isCompleted = True\<rparr>,
               \<lparr>item_id = 2, name = str ''Eggs'', quantity = 6, unit = str ''pcs'',
                 isCompleted = False\<rparr>]\<rparr>]\<rparr>)
   \<and> status (fst (update_list ex_js 1 10 (Some [DStr (str ''Bread'')]) ex_store)) = 200
   \<and> map (\<lambda>l. (userId l, map name (items l)))
        (lists (snd (update_list ex_js 1 10 (Some [DStr (str ''Bread'')]) ex_store)))
       = [(2, [str ''Milk'', str ''Eggs'', str ''Bread''])]
   \<and> delete_category 1 5 ex_store
       = (Response 200 (Message ''Category and its lists deleted successfully.''), empty_store)
   \<and> delete_list 1 10 ex_store
       = (Response 200 (Message ''List deleted successfully''), ex_store\<lparr>lists := []\<rparr>)
   \<and> status (fst (update_item ex_js 1 10 2
         (Some \<lparr>u_name = Some (str ''Bread''), u_quantity = Some 1, u_unit = Some (str ''pcs'')\<rparr>) ex_store))
       = 200
   \<and> map (\<lambda>l. (userId l, map name (items l)))
        (lists (snd (update_item ex_js 1 10 2
           (Some \<lparr>u_name = Some (str ''Bread''), u_quantity = Some 1, u_unit = Some (str ''pcs'')\<rparr>)
           ex_store)))
       = [(2, [str ''Milk'', str ''Bread''])]
   \<and> delete_item 1 10 1 ex_store
       = (Response 404 (Message ''List not found or item not found''), ex_store)"
  by (simp add: eval_defs)

section \<open>Descriptors that are no items\<close>

text \<open>
  Claim C10: in the merge endpoint every descriptor that is neither a string nor an
  object with a name property is skipped without error, conflict or mutation, and the
  rest of the batch is still applied; list creation instead refuses the whole request
  with 400 on an invalid item shape.

  \<open>null\<close> is such a descriptor, and \<open>typeof null\<close> is \<open>'object'\<close>: reading its \<open>name\<close>
  throws, the merge answers 500 and applies nothing, and list creation answers 500
  too. A number or boolean in the same place is skipped by the merge and refused
  with 400 by the creation.
\<close>

theorem null_descriptor_aborts:
  "update_list ex_js 2 10 (Some [DNull, DStr (str ''Bread'')]) ex_store
     = (Response 500 (Message ''Error updating list''), ex_store)
   \<and> status (fst (update_list ex_js 2 10 (Some [DPrim, DStr (str ''Bread'')]) ex_store)) = 200
   \<and> map (\<lambda>l. map name (items l))
        (lists (snd (update_list ex_js 2 10 (Some [DPrim, DStr (str ''Bread'')]) ex_store)))
       = [[str ''Milk'', str ''Eggs'', str ''Bread'']]
   \<and> add_list ex_js 2 5 (Some (str ''New'')) (Some [DNull, DStr (str ''Bread'')]) ex_store
       = (Response 500 (Message ''Error adding list''), ex_store)
   \<and> add_list ex_js 2 5 (Some (str ''New'')) (Some [DPrim, DStr (str ''Bread'')]) ex_store
       = (Response 400 (Message ''One or more items have invalid format.''), ex_store)"
  by (simp add: eval_defs)

section \<open>Updating one item\<close>



text \<open>
  Claim C2, as stated: every rename checks the new name, trimmed and lower-cased,
  against all other items of the list and fails with 400 on a collision; renaming
  \<open>Milk\<close> to \<open>milk\<close> with a trailing space in a list that holds another item \<open>milk\<close>
  fails and leaves the list unchanged.

  The handler skips the check when the new name, trimmed and lower-cased, equals the
  item's current name normalised the same way. In \<open>milk_store\<close> the rename of the
  claim is answered 200 and stored. The same happens in a list created through the
  API with the items \<open>Milk\<close> followed by a space and \<open>milk\<close>, when the first is renamed to
  \<open>milk\<close> followed by two spaces.
\<close>

theorem rename_to_same_normalized_name_counterexample:
  "status (fst (update_item ex_js 2 10 1
       (Some \<lparr>u_name = Some (str ''milk ''), u_quantity = Some 2, u_unit = Some (str ''L'')\<rparr>) milk_store))
     = 200
   \<and> map (\<lambda>l. map name (items l))
        (lists (snd (update_item ex_js 2 10 1
           (Some \<lparr>u_name = Some (str ''milk ''), u_quantity = Some 2, u_unit = Some (str ''L'')\<rparr>)
           milk_store)))
       = [[str ''milk '', str ''milk'']]
   \<and> normalized ex_js (str ''milk '') = normalized ex_js (str ''milk'')
   \<and> status (fst (add_list ex_js 2 5 (Some (str ''Weekly'')) (Some [DStr (str ''Milk ''), DStr (str ''milk'')])
         empty_store)) = 201
   \<and> status (fst (update_item ex_js 2 1 1
         (Some \<lparr>u_name = Some (str ''milk  ''), u_quantity = Some 2, u_unit = Some (str ''L'')\<rparr>)
         (snd (add_list ex_js 2 5 (Some (str ''Weekly'')) (Some [DStr (str ''Milk ''), DStr (str ''milk'')])
            empty_store)))) = 200
   \<and> map (\<lambda>l. map name (items l))
        (lists (snd (update_item ex_js 2 1 1
           (Some \<lparr>u_name = Some (str ''milk  ''), u_quantity = Some 2, u_unit = Some (str ''L'')\<rparr>)
           (snd (add_list ex_js 2 5 (Some (str ''Weekly'')) (Some [DStr (str ''Milk ''), DStr (str ''milk'')])
              empty_store)))))
       = [[str ''milk  '', str ''milk'']]"
  by (simp add: eval_defs)

text \<open>
  Claim C2, amended: for a complete update request on an existing list, the handler
  answers 400 with the duplicate-name message, leaving the store as it was, exactly
  when the new name, trimmed and lower-cased, differs from the current name of the
  item so normalised (or the list has no item of that id) and equals the normalised
  name of another item of the list.
\<close>

theorem update_item_duplicate_check:
  assumes found: "findById listID d = Some l"
      and nm: "u_name upd = Some nm" "nm \<noteq> []"
      and q: "u_quantity upd = Some q"
      and un: "u_unit upd = Some un" "un \<noteq> []"
  shows "(update_item J uid listID itemID (Some upd) d
            = (Response 400 (Message ''Item name already exists in the list (case-insensitive)''), d))
         \<longleftrightarrow>
         (map_option (\<lambda>it. normalized J (name it)) (find (\<lambda>it. item_id it = itemID) (items l))
            \<noteq> Some (normalized J nm)
          \<and> (\<exists>it\<in>set (items l). item_id it \<noteq> itemID \<and> normalized J (name it) = normalized J nm))"
    (is "?lhs \<longleftrightarrow> ?changed \<and> ?collides")
proof -
  have complete: "\<not> (falsy_str (u_name upd) \<or> u_quantity upd = None \<or> falsy_str (u_unit upd))"
    using nm q un by (simp add: falsy_str_def)
  have guard: "(Some (normalized J (the (u_name upd)))
                  \<noteq> map_option (\<lambda>it. normalized J (name it))
                       (find (\<lambda>it. item_id it = itemID) (items l))
                \<and> list_ex (\<lambda>it. item_id it \<noteq> itemID
                            \<and> normalized J (name it) = normalized J (the (u_name upd))) (items l))
               \<longleftrightarrow> ?changed \<and> ?collides"
  proof -
    have ne: "(Some a \<noteq> x) \<longleftrightarrow> (x \<noteq> Some a)" for a :: jsstring and x
      by (cases x) auto
    show ?thesis
      using nm by (simp add: list_ex_iff ne)
  qed
  have c1: "falsy_str (u_name upd) = False" and c2: "u_quantity upd \<noteq> None"
    and c3: "falsy_str (u_unit upd) = False"
    using complete by simp_all
  define G where "G \<longleftrightarrow> Some (normalized J (the (u_name upd)))
                  \<noteq> map_option (\<lambda>it. normalized J (name it))
                       (find (\<lambda>it. item_id it = itemID) (items l))
                \<and> list_ex (\<lambda>it. item_id it \<noteq> itemID
                            \<and> normalized J (name it) = normalized J (the (u_name upd))) (items l)"
  have unfold: "update_item J uid listID itemID (Some upd) d =
      (if G
       then (Response 400 (Message ''Item name already exists in the list (case-insensitive)''),
             d)
       else
      (case findIndex (\<lambda>it. item_id it = itemID) (items l) of
         None \<Rightarrow> (Response 404 (Message ''Item not found in the list''), d)
       | Some i \<Rightarrow>
           (case save J (l\<lparr>items := (items l)[i := (items l ! i)
                        \<lparr>name := the (u_name upd), quantity := the (u_quantity upd),
                         unit := the (u_unit upd)\<rparr>]\<rparr>) d of
              Inl e \<Rightarrow> (Response 500 (Message ''Error updating item''), d)
            | Inr d' \<Rightarrow>
                (Response 200 (ListData ''Item updated successfully''
                   (l\<lparr>items := (items l)[i := (items l ! i)
                        \<lparr>name := the (u_name upd), quantity := the (u_quantity upd),
                         unit := the (u_unit upd)\<rparr>]\<rparr>)), d'))))"
    unfolding update_item_def Let_def
    by (simp add: found c1 c2 c3 G_def)
  have "?lhs \<longleftrightarrow> G"
    unfolding unfold by (simp split: option.splits sum.splits)
  with guard show ?thesis
    unfolding G_def by simp
qed

theorem update_item_duplicate_check_witness:
  "update_item ex_js 2 10 2
     (Some \<lparr>u_name = Some (str '' MILK ''), u_quantity = Some 1, u_unit = Some (str ''pcs'')\<rparr>) ex_store
   = (Response 400 (Message ''Item name already exists in the list (case-insensitive)''),
      ex_store)"
proof -
  let ?l = "\<lparr>list_id = 10, list_name = str ''Weekly'', categoryId = 5, userId = 2,
          items =
            [\<lparr>item_id = 1, name = str ''Milk'', quantity = 2, unit = str ''L'', isCompleted = False\<rparr>,
             \<lparr>item_id = 2, name = str ''Eggs'', quantity = 6, unit = str ''pcs'',
               isCompleted = False\<rparr>]\<rparr>"
  have found: "findById 10 ex_store = Some ?l"
    by (simp add: findById_def findOne_def ex_store_def)
  have n1: "normalized ex_js (str ''Milk'') = normalized ex_js (str '' MILK '')" by (simp add: eval_defs)
  have n2: "normalized ex_js (str ''Eggs'') \<noteq> normalized ex_js (str '' MILK '')" by (simp add: eval_defs)
  have ne: "str '' MILK '' \<noteq> []" "str ''pcs'' \<noteq> []" by (simp_all add: str_def)
  show ?thesis
    using update_item_duplicate_check [OF found, of
        "\<lparr>u_name = Some (str '' MILK ''), u_quantity = Some 1, u_unit = Some (str ''pcs'')\<rparr>"
        "str '' MILK ''" 1 "str ''pcs''" ex_js 2 2] n1 n2 ne
    by simp
qed


section \<open>Merging a batch\<close>

lemma reconcile_one_conflicts_grow:
  "reconcile_one J d fm its cs = (its', cs') \<Longrightarrow> \<exists>e. cs' = cs @ e"
  by (auto simp: reconcile_one_def Let_def split: option.splits)

lemma reconcile_conflicts_grow:
  "reconcile J d batch its cs = Inr (its', cs') \<Longrightarrow> \<exists>e. cs' = cs @ e"
proof (induction batch arbitrary: its cs)
  case Nil
  then show ?case by simp
next
  case (Cons x xs)
  show ?case
  proof (cases "format_merge J x")
    case (Inl e)
    with Cons.prems show ?thesis by simp
  next
    case (Inr r)
    show ?thesis
    proof (cases r)
      case None
      with Inr Cons show ?thesis by simp
    next
      case (Some fm)
      obtain its1 cs1 where step: "reconcile_one J d fm its cs = (its1, cs1)"
        by (cases "reconcile_one J d fm its cs")
      with Inr Some Cons.prems have "reconcile J d xs its1 cs1 = Inr (its', cs')"
        by simp
      from Cons.IH [OF this] obtain e where "cs' = cs1 @ e" ..
      moreover from reconcile_one_conflicts_grow [OF step] obtain e1 where "cs1 = cs @ e1" ..
      ultimately show ?thesis by simp
    qed
  qed
qed

lemma reconcile_one_conflict:
  assumes "findIndex (exactMatch J fm) its = None" and "findIndex (nameConflict J fm) its = Some j"
  shows "reconcile_one J d fm its cs =
           (its, cs @ [\<lparr>c_name = f_name fm, existingUnit = unit (its ! j), newUnit = f_unit fm\<rparr>])"
  using assms by (simp add: reconcile_one_def)

lemma reconcile_append:
  "reconcile J d (pre @ post) its cs =
     (case reconcile J d pre its cs of Inl e \<Rightarrow> Inl e | Inr (its1, cs1) \<Rightarrow> reconcile J d post its1 cs1)"
  by (induction pre arbitrary: its cs) (auto split: sum.splits option.splits prod.splits)

text \<open>A descriptor that meets a unit conflict leaves its entry in the final conflict
  list; and whatever the answer, short of 200, the store stays as it was.\<close>

lemma conflict_is_reported:
  assumes pre: "reconcile J d pre its0 [] = Inr (its1, cs1)"
      and fmt: "format_merge J x = Inr (Some fm)"
      and noexact: "findIndex (exactMatch J fm) its1 = None"
      and conf: "findIndex (nameConflict J fm) its1 = Some j"
      and run: "reconcile J d (pre @ x # post) its0 [] = Inr (its, cs)"
  shows "\<lparr>c_name = f_name fm, existingUnit = unit (its1 ! j), newUnit = f_unit fm\<rparr> \<in> set cs"
proof -
  let ?c = "\<lparr>c_name = f_name fm, existingUnit = unit (its1 ! j), newUnit = f_unit fm\<rparr>"
  from run pre fmt reconcile_one_conflict [OF noexact conf, of d cs1]
  have "reconcile J d post its1 (cs1 @ [?c]) = Inr (its, cs)"
    by (simp add: reconcile_append)
  from reconcile_conflicts_grow [OF this] show ?thesis by auto
qed

lemma update_list_store:
  "status (fst (update_list J uid listID body_items d)) \<noteq> 200 \<Longrightarrow>
     snd (update_list J uid listID body_items d) = d"
  by (auto simp: update_list_def split: option.splits list.splits sum.splits prod.splits if_splits)

text \<open>A descriptor that takes the \<open>continue\<close> branch leaves no trace, wherever it stands
  in the batch; these are the numbers, the booleans and the objects without a truthy
  \<open>name\<close>. A \<open>null\<close> ends the loop with a TypeError.\<close>

lemma format_merge_skip_iff:
  "format_merge J x = Inr None \<longleftrightarrow> x = DPrim \<or> (\<exists>n q u. x = DObj n q u \<and> \<not> truthy J n)"
  by (cases x) (auto split: jsval.splits)

lemma reconcile_skip:
  "format_merge J x = Inr None \<Longrightarrow>
     reconcile J d (pre @ x # post) its cs = reconcile J d (pre @ post) its cs"
  by (simp add: reconcile_append split: sum.splits prod.splits)

lemma reconcile_null:
  "reconcile J d pre its cs = Inr r \<Longrightarrow> reconcile J d (pre @ DNull # post) its cs = Inl TypeError"
  by (simp add: reconcile_append split: prod.splits)

lemma conflicts_abort_merge:
  assumes found: "findById listID d = Some l"
      and run: "reconcile J d batch (items l) [] = Inr (its, cs)"
      and conflicts: "cs \<noteq> []"
  shows "update_list J uid listID (Some batch) d = (Response 400 (Conflicts cs), d)"
proof -
  from run conflicts obtain x xs where batch: "batch = x # xs"
    by (cases batch) auto
  show ?thesis
    unfolding batch update_list_def
    using found run conflicts by (simp add: batch)
qed

text \<open>
  Claim C4: for every merge batch in which at least one descriptor produces a unit
  conflict, the call returns the full conflict list and applies nothing to the
  persisted list.

  A batch that runs to its end with conflicts is answered 400 with all of them, the
  store untouched (\<open>conflicts_abort_merge\<close>), and no answer short of 200 changes the
  store (\<open>update_list_store\<close>). But a batch is any JSON array: when \<open>null\<close> follows the
  descriptor that conflicts, the conflict is recorded, reading \<open>null.name\<close> throws, and
  the answer is 500 with no conflict list.
\<close>

theorem conflict_then_null_aborts:
  "update_list ex_js 2 10
     (Some [DObj (JsStr (str ''milk'')) (QNum 1) (Some (str ''gal''))]) ex_store
     = (Response 400
          (Conflicts [\<lparr>c_name = str ''milk'', existingUnit = str ''L'',
                       newUnit = str ''gal''\<rparr>]), ex_store)
   \<and> update_list ex_js 2 10
       (Some [DObj (JsStr (str ''milk'')) (QNum 1) (Some (str ''gal'')), DNull]) ex_store
     = (Response 500 (Message ''Error updating list''), ex_store)"
  by (simp add: eval_defs)

section \<open>Normalisation and accumulation\<close>




section \<open>Merging the same descriptor three times\<close>








end
